theory Spec2Isabelle
  imports Complex_Main
begin

section \<open>Values shared by the whole pipeline\<close>

text \<open>
  A Python float is either a finite number or one of the three special values.
  Rounding is not modelled: no property below depends on it.
\<close>

datatype pyfloat = Fin real | PosInf | NegInf | NaN


text \<open>\<open>a > b\<close> on floats: every comparison with NaN is false.\<close>

fun fgt :: "pyfloat \<Rightarrow> pyfloat \<Rightarrow> bool" where
  "fgt NaN b = False"
| "fgt a NaN = False"
| "fgt (Fin a) (Fin b) = (b < a)"
| "fgt (Fin a) PosInf = False"
| "fgt (Fin a) NegInf = True"
| "fgt PosInf PosInf = False"
| "fgt PosInf b = True"
| "fgt NegInf b = False"

text \<open>\<open>a + b\<close> on floats.\<close>

fun fadd :: "pyfloat \<Rightarrow> pyfloat \<Rightarrow> pyfloat" where
  "fadd NaN b = NaN"
| "fadd a NaN = NaN"
| "fadd (Fin a) (Fin b) = Fin (a + b)"
| "fadd (Fin a) b = b"
| "fadd PosInf NegInf = NaN"
| "fadd NegInf PosInf = NaN"
| "fadd a b = a"

text \<open>
  The exceptions that the modelled code can raise. \<open>RuntimeError\<close> is what the tensor
  library raises for an integer that does not fit its type and for a state dictionary
  that does not fit the model; \<open>BackendError\<close> stands for an exception raised inside a
  numeric kernel. The last three are the error kinds named by the specification; no
  path of the source constructs them.
\<close>

datatype error =
    ValueError
  | RuntimeError
  | IndexError
  | AttributeError
  | ZeroDivisionError
  | FileNotFoundError
  | ConstraintError
  | BackendError string
  | MissingNodeError
  | LabelMismatchError
  | DanglingReferenceError

section \<open>Graph tensor builder (\<open>GraphRAG._create_graph_data\<close>)\<close>

text \<open>
  The builder receives node dictionaries with the keys \<open>id\<close> and \<open>features\<close> and edge
  dictionaries with the keys \<open>source\<close>, \<open>target\<close> and \<open>type\<close>, as
  \<open>_get_subgraph\<close> produces them. The identifiers are the integer ids of the graph store.
\<close>

record node_dict =
  node_id :: int
  features :: "pyfloat list"

record edge_dict =
  source :: int
  target :: int
  rel_type :: string

text \<open>
  The \<open>Data\<close> object: the node-feature matrix as its list of rows, the edge index as
  its two rows (sources, targets), and the optional label vector.
\<close>

record data =
  data_x :: "pyfloat list list"
  data_edge_index :: "int list \<times> int list"
  data_y :: "int list option"

text \<open>
  \<open>torch.tensor\<close> on a list of rows takes the number of columns from the first row.
  When the first row is empty the tensor has no element and the other rows are not
  read; otherwise a row of another length raises \<open>ValueError\<close>.
\<close>

fun tensor2d :: "'a list list \<Rightarrow> error + 'a list list" where
  "tensor2d [] = Inr []"
| "tensor2d (r # rs) =
     (if r = [] then Inr (map (\<lambda>r'. []) (r # rs))
      else if list_all (\<lambda>r'. length r' = length r) rs then Inr (r # rs)
      else Inl ValueError)"

text \<open>A value stored with \<open>dtype=torch.long\<close> must fit 64 signed bits.\<close>

definition fits_long :: "int \<Rightarrow> bool" where
  "fits_long v = (- (2 ^ 63) \<le> v \<and> v < 2 ^ 63)"

definition create_graph_data ::
  "node_dict list \<Rightarrow> edge_dict list \<Rightarrow> int list option \<Rightarrow> error + data" where
  "create_graph_data nodes edges labels =
     (case tensor2d (map features nodes) of
        Inl e \<Rightarrow> Inl e
      | Inr node_features \<Rightarrow>
          if \<not> list_all (\<lambda>e. fits_long (source e) \<and> fits_long (target e)) edges
          then Inl RuntimeError
          else
            let edge_index = (map source edges, map target edges) in
            (case labels of
               None \<Rightarrow>
                 Inr \<lparr>data_x = node_features, data_edge_index = edge_index, data_y = None\<rparr>
             | Some [] \<Rightarrow>
                 Inr \<lparr>data_x = node_features, data_edge_index = edge_index, data_y = None\<rparr>
             | Some (l # ls) \<Rightarrow>
                 if \<not> list_all fits_long (l # ls) then Inl RuntimeError
                 else Inr \<lparr>data_x = node_features, data_edge_index = edge_index,
                            data_y = Some (l # ls)\<rparr>))"

text \<open>
  The invariant of the specification's data model: every entry of the edge index is a
  row of the node-feature matrix.
\<close>

definition valid_row :: "data \<Rightarrow> int \<Rightarrow> bool" where
  "valid_row d i = (0 \<le> i \<and> i < int (length (data_x d)))"

definition edge_index_valid :: "data \<Rightarrow> bool" where
  "edge_index_valid d =
     (list_all (valid_row d) (fst (data_edge_index d)) \<and>
      list_all (valid_row d) (snd (data_edge_index d)))"

section \<open>The graph store\<close>

text \<open>
  The property graph behind the driver: nodes and relationships carry the integer
  identity that the store assigns (\<open>node.id\<close>), labels or a type, and a property
  map in key order. \<open>s_unique\<close> lists the uniqueness constraints (label, key) that
  \<open>init_neo4j\<close> installs.
\<close>

datatype pval =
    PNull
  | PBool bool
  | PInt int
  | PFloat pyfloat
  | PStr string
  | PFloats "pyfloat list"

type_synonym props = "(string \<times> pval) list"

record gnode =
  n_id :: int
  n_labels :: "string list"
  n_props :: props

record grel =
  r_id :: int
  r_start :: int
  r_end :: int
  r_type :: string
  r_props :: props

record store =
  s_nodes :: "gnode list"
  s_rels :: "grel list"
  s_unique :: "(string \<times> string) list"

record path =
  p_nodes :: "gnode list"
  p_rels :: "grel list"

text \<open>The pattern \<open>{id: $v}\<close> with a string parameter.\<close>

definition has_id :: "gnode \<Rightarrow> string \<Rightarrow> bool" where
  "has_id n v = (map_of (n_props n) ''id'' = Some (PStr v))"

text \<open>An identity that the store has not handed out yet.\<close>

definition fresh_id :: "int list \<Rightarrow> int" where
  "fresh_id ids = foldr (\<lambda>i m. max (i + 1) m) ids 0"

text \<open>A property set to null is not stored.\<close>

definition stored_props :: "props \<Rightarrow> props" where
  "stored_props ps = filter (\<lambda>(k, v). v \<noteq> PNull) ps"

section \<open>Subgraph retrieval (\<open>GraphRAG._get_subgraph\<close>)\<close>

text \<open>
  The query
  \<^verbatim>\<open>MATCH path = (start:Transaction {id: $node_id})-[*1..$depth]-(related)\<close>
  returns one record per path of one to \<open>depth\<close> relationships, in either direction,
  that starts at a \<open>Transaction\<close> node with the given id and uses no relationship
  twice. The order of the records is the store's; here it is depth first.
\<close>

definition match_start :: "store \<Rightarrow> string \<Rightarrow> gnode list" where
  "match_start s v =
     filter (\<lambda>n. ''Transaction'' \<in> set (n_labels n) \<and> has_id n v) (s_nodes s)"

definition neighbours :: "store \<Rightarrow> grel \<Rightarrow> gnode \<Rightarrow> gnode list" where
  "neighbours s r cur =
     (if r_start r = n_id cur then filter (\<lambda>n. n_id n = r_end r) (s_nodes s)
      else if r_end r = n_id cur then filter (\<lambda>n. n_id n = r_start r) (s_nodes s)
      else [])"

fun expand :: "store \<Rightarrow> nat \<Rightarrow> path \<Rightarrow> gnode \<Rightarrow> path list" where
  "expand s 0 p cur = []"
| "expand s (Suc k) p cur =
     concat (map (\<lambda>r.
       if r_id r \<in> set (map r_id (p_rels p)) then []
       else concat (map (\<lambda>nxt.
              \<lparr>p_nodes = p_nodes p @ [nxt], p_rels = p_rels p @ [r]\<rparr> #
              expand s k \<lparr>p_nodes = p_nodes p @ [nxt], p_rels = p_rels p @ [r]\<rparr> nxt)
            (neighbours s r cur)))
       (s_rels s))"

definition run_subgraph_query :: "store \<Rightarrow> string \<Rightarrow> int \<Rightarrow> path list" where
  "run_subgraph_query s v depth =
     concat (map (\<lambda>start. expand s (nat depth) \<lparr>p_nodes = [start], p_rels = []\<rparr> start)
       (match_start s v))"

text \<open>
  \<open>_extract_node_features\<close>: the values that are \<open>int\<close> or \<open>float\<close> instances, in key
  order, converted with \<open>float\<close>. A Python \<open>bool\<close> is an \<open>int\<close> instance.
\<close>

fun numeric_feature :: "pval \<Rightarrow> pyfloat list" where
  "numeric_feature (PInt i) = [Fin (of_int i)]"
| "numeric_feature (PFloat f) = [f]"
| "numeric_feature (PBool b) = [Fin (if b then 1 else 0)]"
| "numeric_feature v = []"

definition extract_node_features :: "gnode \<Rightarrow> pyfloat list" where
  "extract_node_features n = concat (map (\<lambda>(k, v). numeric_feature v) (n_props n))"

text \<open>The four accumulators of the loop over the records.\<close>

record subgraph_state =
  sg_nodes :: "node_dict list"
  sg_edges :: "edge_dict list"
  seen_nodes :: "int set"
  seen_edges :: "(int \<times> int) set"

definition visit_node :: "subgraph_state \<Rightarrow> gnode \<Rightarrow> subgraph_state" where
  "visit_node st n =
     (if n_id n \<notin> seen_nodes st
      then st\<lparr>sg_nodes := sg_nodes st @
                  [\<lparr>node_id = n_id n, features = extract_node_features n\<rparr>],
              seen_nodes := insert (n_id n) (seen_nodes st)\<rparr>
      else st)"

definition edge_key :: "grel \<Rightarrow> int \<times> int" where
  "edge_key r = (r_start r, r_end r)"

definition visit_rel :: "subgraph_state \<Rightarrow> grel \<Rightarrow> subgraph_state" where
  "visit_rel st r =
     (if edge_key r \<notin> seen_edges st
      then st\<lparr>sg_edges := sg_edges st @
                  [\<lparr>source = r_start r, target = r_end r, rel_type = r_type r\<rparr>],
              seen_edges := insert (edge_key r) (seen_edges st)\<rparr>
      else st)"

definition visit_record :: "subgraph_state \<Rightarrow> path \<Rightarrow> subgraph_state" where
  "visit_record st p = foldl visit_rel (foldl visit_node st (p_nodes p)) (p_rels p)"

definition collect_subgraph :: "path list \<Rightarrow> node_dict list \<times> edge_dict list" where
  "collect_subgraph records =
     (let st = foldl visit_record
                 \<lparr>sg_nodes = [], sg_edges = [], seen_nodes = {}, seen_edges = {}\<rparr> records
      in (sg_nodes st, sg_edges st))"

definition get_subgraph :: "store \<Rightarrow> string \<Rightarrow> int \<Rightarrow> node_dict list \<times> edge_dict list" where
  "get_subgraph s v depth = collect_subgraph (run_subgraph_query s v depth)"

definition retrieve_context :: "store \<Rightarrow> string \<Rightarrow> int \<Rightarrow> error + data" where
  "retrieve_context s transaction_id depth =
     (case get_subgraph s transaction_id depth of
        (ns, es) \<Rightarrow> create_graph_data ns es None)"

section \<open>Explanation context (\<open>GraphRAG._get_explanation_context\<close>)\<close>

text \<open>
  The query matches the transaction, optionally its owners over \<open>BELONGS_TO\<close> and
  optionally its related transactions over \<open>CONNECTED_TO\<close>, and returns one record per
  pair of transaction and owner with the related transactions collected.
\<close>

definition out_neighbours :: "store \<Rightarrow> gnode \<Rightarrow> string \<Rightarrow> string \<Rightarrow> gnode list" where
  "out_neighbours s t ty lbl =
     concat (map (\<lambda>r.
       if r_type r = ty \<and> r_start r = n_id t
       then filter (\<lambda>n. n_id n = r_end r \<and> lbl \<in> set (n_labels n)) (s_nodes s)
       else [])
       (s_rels s))"

definition explanation_records ::
  "store \<Rightarrow> string \<Rightarrow> (gnode \<times> gnode option \<times> gnode list) list" where
  "explanation_records s v =
     concat (map (\<lambda>t.
       let us = out_neighbours s t ''BELONGS_TO'' ''User'';
           rs = out_neighbours s t ''CONNECTED_TO'' ''Transaction''
       in if us = [] then [(t, None, rs)]
          else map (\<lambda>u. (t, Some u, concat (replicate (count_list us u) rs)))
                 (rev (remdups (rev us))))
       (match_start s v))"

text \<open>
  The returned dictionary: empty when the query has no record, else built from the
  first record. A node object is false in a condition when it has no property.
\<close>

datatype explanation =
    EmptyContext
  | Context props "props option" "props list"

definition get_explanation_context :: "store \<Rightarrow> string \<Rightarrow> explanation" where
  "get_explanation_context s transaction_id =
     (case explanation_records s transaction_id of
        [] \<Rightarrow> EmptyContext
      | (t, u, related) # _ \<Rightarrow>
          Context (n_props t)
            (case u of None \<Rightarrow> None
             | Some n \<Rightarrow> if n_props n = [] then None else Some (n_props n))
            (map n_props related))"

section \<open>Graph mutation (\<open>GraphRAG.update_graph\<close>)\<close>

record relationship =
  related_id :: string
  properties :: props

text \<open>A uniqueness constraint (label, key) rejects a second node with the same value.\<close>

definition violates_unique :: "store \<Rightarrow> gnode \<Rightarrow> bool" where
  "violates_unique s t =
     list_ex (\<lambda>(lbl, key).
        lbl \<in> set (n_labels t) \<and>
        (case map_of (n_props t) key of
           None \<Rightarrow> False
         | Some v \<Rightarrow>
             list_ex (\<lambda>n. lbl \<in> set (n_labels n) \<and> map_of (n_props n) key = Some v)
               (s_nodes s)))
       (s_unique s)"

text \<open>
  \<open>CREATE (t)-[r:CONNECTED_TO]->(related)  SET r += rel.properties\<close> for one row.
\<close>

definition create_connected_to :: "gnode \<Rightarrow> relationship \<Rightarrow> store \<Rightarrow> gnode \<Rightarrow> store" where
  "create_connected_to t rel s related =
     s\<lparr>s_rels := s_rels s @
         [\<lparr>r_id = fresh_id (map r_id (s_rels s)), r_start = n_id t, r_end = n_id related,
           r_type = ''CONNECTED_TO'', r_props = stored_props (properties rel)\<rparr>]\<rparr>"

text \<open>
  \<open>UNWIND $relationships as rel  MATCH (related {id: rel.related_id})\<close>: one row per
  relationship and per node, of any label, whose \<open>id\<close> property is the related id. A
  relationship without such a node yields no row.
\<close>

definition connect_relationship :: "gnode \<Rightarrow> store \<Rightarrow> relationship \<Rightarrow> store" where
  "connect_relationship t s rel =
     foldl (create_connected_to t rel) s
       (filter (\<lambda>n. has_id n (related_id rel)) (s_nodes s))"

text \<open>\<open>CREATE (t:Transaction $transaction_data)\<close>: the node that the query creates.\<close>

definition transaction_node :: "store \<Rightarrow> props \<Rightarrow> gnode" where
  "transaction_node s transaction_data =
     \<lparr>n_id = fresh_id (map n_id (s_nodes s)), n_labels = [''Transaction''],
      n_props = stored_props transaction_data\<rparr>"

text \<open>
  The whole query runs in one transaction of the store: a constraint violation leaves
  the store as it was.
\<close>

definition update_graph :: "store \<Rightarrow> props \<Rightarrow> relationship list \<Rightarrow> error + store" where
  "update_graph s transaction_data relationships =
     (let t = transaction_node s transaction_data
      in if violates_unique s t then Inl ConstraintError
         else Inr (foldl (connect_relationship t)
                     (s\<lparr>s_nodes := s_nodes s @ [t]\<rparr>) relationships))"

section \<open>The classifier (\<open>FraudGNN\<close>)\<close>

text \<open>
  The trainable parameters are the entries of the model's state dictionary, keyed by
  layer name. The mode flag \<open>training\<close> is the one that \<open>train()\<close> and \<open>eval()\<close> set.
\<close>

record tensor =
  t_shape :: "nat list"
  t_values :: "pyfloat list"

type_synonym state_dict = "(string \<times> tensor) list"

record fraud_gnn =
  params :: state_dict
  training :: bool

text \<open>
  The numeric kernels belong to the tensor library and are parameters of the model:
  \<^item> \<open>forward\<close>: the forward pass, a function of the parameters, of the \<open>training\<close> flag
    (dropout is active when it is set), of whether gradients are tracked, and of the
    input; it returns one probability per graph or raises;
  \<^item> \<open>adam\<close>: the construction of the optimizer from the parameters and the learning
    rate, taken to succeed;
  \<^item> \<open>backward_step\<close>: \<open>zero_grad\<close>, \<open>loss.backward()\<close> and \<open>optimizer.step()\<close> for one
    example, returning the new optimizer state and the new parameters.
\<close>

record 'o torch =
  forward :: "state_dict \<Rightarrow> bool \<Rightarrow> bool \<Rightarrow> data \<Rightarrow> error + pyfloat list"
  adam :: "state_dict \<Rightarrow> pyfloat \<Rightarrow> 'o"
  backward_step :: "'o \<Rightarrow> state_dict \<Rightarrow> data \<Rightarrow> pyfloat \<Rightarrow> 'o \<times> state_dict"

text \<open>
  \<open>FraudGNN.predict\<close>. The probabilities are compared with the threshold as exact
  numbers; the rounding of the threshold to single precision is not modelled.
\<close>

definition predict ::
  "'o torch \<Rightarrow> fraud_gnn \<Rightarrow> data \<Rightarrow> pyfloat \<Rightarrow>
   fraud_gnn \<times> (error + pyfloat list \<times> pyfloat list)" where
  "predict T m d threshold =
     (let m' = m\<lparr>training := False\<rparr> in
      case forward T (params m') (training m') False d of
        Inl e \<Rightarrow> (m', Inl e)
      | Inr probabilities \<Rightarrow>
          (m', Inr (probabilities,
                    map (\<lambda>p. if fgt p threshold then Fin 1 else Fin 0) probabilities)))"

section \<open>Training and persistence (\<open>FraudDetector\<close>)\<close>

record detector =
  model :: fraud_gnn
  device :: string

text \<open>
  The criterion of \<open>train\<close> is \<open>nn.BCELoss()\<close>, applied to the output of the forward
  pass and to the labels as a column of floats. It raises \<open>ValueError\<close> when the two
  differ in size and \<open>RuntimeError\<close> when an element of the output is not between 0
  and 1, which a NaN is not. Else the loss of an element with probability \<open>p\<close> and
  target \<open>t\<close> is \<open>- (t * log p + (1 - t) * log (1 - p))\<close> with each logarithm clamped
  to at least \<open>-100\<close>, and the loss is the mean over the elements; the mean of no
  element is NaN.
\<close>

definition clamp_log :: "real \<Rightarrow> real" where
  "clamp_log p = (if p \<le> 0 then - 100 else max (ln p) (- 100))"

fun bce_term :: "pyfloat \<Rightarrow> int \<Rightarrow> error + real" where
  "bce_term (Fin p) t =
     (if 0 \<le> p \<and> p \<le> 1
      then Inr (- (of_int t * clamp_log p + (1 - of_int t) * clamp_log (1 - p)))
      else Inl RuntimeError)"
| "bce_term a t = Inl RuntimeError"

fun bce_terms :: "pyfloat list \<Rightarrow> int list \<Rightarrow> error + real list" where
  "bce_terms [] [] = Inr []"
| "bce_terms (a # as) (t # ts) =
     (case bce_term a t of
        Inl e \<Rightarrow> Inl e
      | Inr v \<Rightarrow>
          (case bce_terms as ts of
             Inl e \<Rightarrow> Inl e
           | Inr vs \<Rightarrow> Inr (v # vs)))"
| "bce_terms as ts = Inl ValueError"

definition bce_loss :: "pyfloat list \<Rightarrow> int list \<Rightarrow> error + pyfloat" where
  "bce_loss output y =
     (if length output \<noteq> length y then Inl ValueError
      else case bce_terms output y of
             Inl e \<Rightarrow> Inl e
           | Inr [] \<Rightarrow> Inr NaN
           | Inr (v # vs) \<Rightarrow> Inr (Fin (sum_list (v # vs) / real (length (v # vs)))))"

text \<open>
  The state that the training loop changes: the parameters, the optimizer, the lines
  printed so far (epoch number and mean loss), the number of calls of
  \<open>optimizer.step()\<close> made so far, and the losses added to \<open>total_loss\<close> so far.
\<close>

record 'o train_state =
  ts_params :: state_dict
  ts_opt :: 'o
  ts_log :: "(nat \<times> pyfloat) list"
  ts_steps :: nat
  ts_losses :: "pyfloat list"

text \<open>
  The inner loop over the examples, with \<open>total_loss\<close> as accumulator. The label
  vector is read after the forward pass; an example without one has no \<open>unsqueeze\<close>.
  An exception leaves the parameters as the steps before it made them.
\<close>

fun run_examples ::
  "'o torch \<Rightarrow> 'o train_state \<Rightarrow> pyfloat \<Rightarrow> data list \<Rightarrow> 'o train_state \<times> (error + pyfloat)"
  where
  "run_examples T st total_loss [] = (st, Inr total_loss)"
| "run_examples T st total_loss (batch # rest) =
     (case forward T (ts_params st) True True batch of
        Inl e \<Rightarrow> (st, Inl e)
      | Inr output \<Rightarrow>
          (case data_y batch of
             None \<Rightarrow> (st, Inl AttributeError)
           | Some y \<Rightarrow>
               (case bce_loss output y of
                  Inl e \<Rightarrow> (st, Inl e)
                | Inr loss \<Rightarrow>
                    (case backward_step T (ts_opt st) (ts_params st) batch loss of
                       (opt', params') \<Rightarrow>
                         run_examples T
                           (st\<lparr>ts_params := params', ts_opt := opt',
                               ts_steps := Suc (ts_steps st),
                               ts_losses := ts_losses st @ [loss]\<rparr>)
                           (fadd total_loss loss) rest))))"

text \<open>\<open>total_loss / len(train_data)\<close> for a length that is not zero.\<close>

fun fdiv_len :: "pyfloat \<Rightarrow> nat \<Rightarrow> pyfloat" where
  "fdiv_len (Fin r) n = Fin (r / real n)"
| "fdiv_len a n = a"

text \<open>
  The outer loop: \<open>epoch\<close> is the loop index, \<open>todo\<close> the number of epochs still to
  run. Dividing by the length of an empty example list raises.
\<close>

fun run_epochs ::
  "'o torch \<Rightarrow> 'o train_state \<Rightarrow> data list \<Rightarrow> nat \<Rightarrow> nat \<Rightarrow> 'o train_state \<times> (error + unit)"
  where
  "run_epochs T st train_data epoch 0 = (st, Inr ())"
| "run_epochs T st train_data epoch (Suc todo) =
     (case run_examples T st (Fin 0) train_data of
        (st', Inl e) \<Rightarrow> (st', Inl e)
      | (st', Inr total_loss) \<Rightarrow>
          if length train_data = 0 then (st', Inl ZeroDivisionError)
          else
            let avg_loss = fdiv_len total_loss (length train_data);
                st'' = (if (epoch + 1) mod 10 = 0
                        then st'\<lparr>ts_log := ts_log st' @ [(epoch + 1, avg_loss)]\<rparr>
                        else st')
            in run_epochs T st'' train_data (Suc epoch) todo)"

text \<open>
  \<open>FraudDetector.train\<close>: the detector afterwards, the loop state at the end, and
  whether the call returned or raised. \<open>range(epochs)\<close> is empty for \<open>epochs \<le> 0\<close>;
  \<open>batch_size\<close> is not used by the source.
\<close>

definition train ::
  "'o torch \<Rightarrow> detector \<Rightarrow> data list \<Rightarrow> int \<Rightarrow> pyfloat \<Rightarrow> int \<Rightarrow>
   (detector \<times> 'o train_state) \<times> (error + unit)" where
  "train T det train_data epochs learning_rate batch_size =
     (let m = (model det)\<lparr>training := True\<rparr>;
          optimizer = adam T (params m) learning_rate
      in case run_epochs T
                \<lparr>ts_params = params m, ts_opt = optimizer, ts_log = [], ts_steps = 0,
                 ts_losses = []\<rparr>
                train_data 0 (nat epochs) of
           (st, r) \<Rightarrow> ((det\<lparr>model := m\<lparr>params := ts_params st\<rparr>\<rparr>, st), r))"

text \<open>
  The files written by \<open>torch.save\<close>, by path: a file holds the state dictionary it
  was given. The write is taken to succeed: the directory of the path exists.
\<close>

type_synonym filesystem = "string \<rightharpoonup> state_dict"

definition save_model :: "detector \<Rightarrow> filesystem \<Rightarrow> string \<Rightarrow> filesystem" where
  "save_model det fs path = fs(path \<mapsto> params (model det))"

text \<open>
  \<open>load_state_dict\<close> (strict): every parameter of the model takes the tensor stored
  under its key when there is one of the same shape; a missing key, a shape mismatch or
  a key the model does not have raises after the copying.
\<close>

fun load_entries :: "state_dict \<Rightarrow> state_dict \<Rightarrow> state_dict \<times> bool" where
  "load_entries [] sd = ([], True)"
| "load_entries ((k, t) # ps) sd =
     (case load_entries ps sd of
        (ps', ok) \<Rightarrow>
          (case map_of sd k of
             None \<Rightarrow> ((k, t) # ps', False)
           | Some t' \<Rightarrow>
               if t_shape t' = t_shape t then ((k, t') # ps', ok)
               else ((k, t) # ps', False)))"

definition load_state_dict :: "fraud_gnn \<Rightarrow> state_dict \<Rightarrow> fraud_gnn \<times> (error + unit)" where
  "load_state_dict m sd =
     (case load_entries (params m) sd of
        (ps', ok) \<Rightarrow>
          (m\<lparr>params := ps'\<rparr>,
           if ok \<and> list_all (\<lambda>k. k \<in> set (map fst (params m))) (map fst sd)
           then Inr () else Inl RuntimeError))"

definition load_model :: "detector \<Rightarrow> filesystem \<Rightarrow> string \<Rightarrow> detector \<times> (error + unit)" where
  "load_model det fs path =
     (case fs path of
        None \<Rightarrow> (det, Inl FileNotFoundError)
      | Some sd \<Rightarrow>
          (case load_state_dict (model det) sd of
             (m', r) \<Rightarrow> (det\<lparr>model := m'\<rparr>, r)))"

section \<open>Scoring (\<open>GraphRAG.predict_fraud\<close>) and the \<open>/predict\<close> route\<close>

record scoring_result =
  transaction_id :: string
  fraud_probability :: pyfloat
  is_fraudulent :: bool
  explanation_context :: explanation

text \<open>
  The context is retrieved with the default depth 2. The first probability and the
  first prediction are read after the explanation context has been fetched; reading
  the first element of an empty result raises.
\<close>

definition predict_fraud ::
  "'o torch \<Rightarrow> fraud_gnn \<Rightarrow> store \<Rightarrow> string \<Rightarrow> pyfloat \<Rightarrow>
   fraud_gnn \<times> (error + scoring_result)" where
  "predict_fraud T m s tid threshold =
     (case retrieve_context s tid 2 of
        Inl e \<Rightarrow> (m, Inl e)
      | Inr graph_data \<Rightarrow>
          (case predict T m graph_data threshold of
             (m', Inl e) \<Rightarrow> (m', Inl e)
           | (m', Inr (probabilities, predictions)) \<Rightarrow>
               let ctx = get_explanation_context s tid in
               (case probabilities of
                  [] \<Rightarrow> (m', Inl IndexError)
                | p # _ \<Rightarrow>
                    (case predictions of
                       [] \<Rightarrow> (m', Inl IndexError)
                     | q # _ \<Rightarrow>
                         (m', Inr \<lparr>transaction_id = tid, fraud_probability = p,
                                    is_fraudulent = (q \<noteq> Fin 0),
                                    explanation_context = ctx\<rparr>)))))"

text \<open>The request body of the route and the two arguments it passes to \<open>update_graph\<close>.\<close>

record transaction =
  tx_id :: string
  amount :: pyfloat
  timestamp :: string
  user_id :: string
  tx_features :: "pyfloat list"

definition transaction_dict :: "transaction \<Rightarrow> props" where
  "transaction_dict t =
     [(''id'', PStr (tx_id t)), (''amount'', PFloat (amount t)),
      (''timestamp'', PStr (timestamp t)), (''user_id'', PStr (user_id t)),
      (''features'', PFloats (tx_features t))]"

definition route_relationships :: "transaction \<Rightarrow> relationship list" where
  "route_relationships t =
     [\<lparr>related_id = user_id t, properties = [(''type'', PStr ''BELONGS_TO'')]\<rparr>]"

section \<open>Notions used to state the properties\<close>

text \<open>
  Two models have the same architecture when their state dictionaries have the same
  keys, in the same order, with tensors of the same shapes. The keys of a state
  dictionary are distinct.
\<close>

definition same_architecture :: "fraud_gnn \<Rightarrow> fraud_gnn \<Rightarrow> bool" where
  "same_architecture m1 m2 =
     (map fst (params m1) = map fst (params m2) \<and>
      map (\<lambda>(k, t). t_shape t) (params m1) = map (\<lambda>(k, t). t_shape t) (params m2) \<and>
      distinct (map fst (params m1)))"



text \<open>
  What holds of an edge that \<open>update_graph\<close> creates for the node \<open>t\<close>: its type, its
  start, and a declared relationship from which it has its properties and whose
  related id is the \<open>id\<close> of the node it ends at.
\<close>

definition new_edge_ok :: "gnode \<Rightarrow> gnode list \<Rightarrow> relationship list \<Rightarrow> grel \<Rightarrow> bool" where
  "new_edge_ok t ns rels r =
     (r_type r = ''CONNECTED_TO'' \<and> r_start r = n_id t \<and>
      list_ex (\<lambda>rel. r_props r = stored_props (properties rel) \<and>
                 list_ex (\<lambda>n. n_id n = r_end r \<and> has_id n (related_id rel)) ns) rels)"

text \<open>
  The elements of a list that are the first with their key, the keys in \<open>seen\<close> being
  taken already.
\<close>

fun keep_first :: "('a \<Rightarrow> 'k) \<Rightarrow> 'k set \<Rightarrow> 'a list \<Rightarrow> 'a list" where
  "keep_first key seen [] = []"
| "keep_first key seen (x # xs) =
     (if key x \<in> seen then keep_first key seen xs
      else x # keep_first key (insert (key x) seen) xs)"

section \<open>Values used in the examples\<close>

text \<open>
  A store for the examples: transaction \<open>T1\<close> and user \<open>U1\<close>, with a \<open>BELONGS_TO\<close> and
  a \<open>CONNECTED_TO\<close> relationship from the transaction to the user, and the two
  uniqueness constraints.
\<close>

definition example_store :: store where
  "example_store =
     \<lparr>s_nodes =
        [\<lparr>n_id = 17, n_labels = [''Transaction''],
          n_props = [(''id'', PStr ''T1''), (''amount'', PFloat (Fin 250))]\<rparr>,
         \<lparr>n_id = 42, n_labels = [''User''],
          n_props = [(''id'', PStr ''U1''), (''risk_score'', PFloat (Fin (1 / 4)))]\<rparr>],
      s_rels =
        [\<lparr>r_id = 0, r_start = 17, r_end = 42, r_type = ''BELONGS_TO'', r_props = []\<rparr>,
         \<lparr>r_id = 1, r_start = 17, r_end = 42, r_type = ''CONNECTED_TO'', r_props = []\<rparr>],
      s_unique = [(''User'', ''id''), (''Transaction'', ''id'')]\<rparr>"

text \<open>A request body of the \<open>/predict\<close> route, for the user of the example store.\<close>

definition example_transaction :: transaction where
  "example_transaction =
     \<lparr>tx_id = ''T2'', amount = Fin 99, timestamp = ''2024-04-01T12:00:00'',
      user_id = ''U1'', tx_features = [Fin 99, Fin (1 / 2)]\<rparr>"

text \<open>
  A stand-in for the numeric kernels: the forward pass returns the given result, the
  optimizer state counts its steps, and a step leaves the parameters as they are.
\<close>

definition const_torch :: "(error + pyfloat list) \<Rightarrow> nat torch" where
  "const_torch out =
     \<lparr>forward = (\<lambda>ps tr gr d. out),
      adam = (\<lambda>ps lr. 0),
      backward_step = (\<lambda>opt ps d loss. (Suc opt, ps))\<rparr>"

text \<open>
  A forward pass that reads the parameters: in evaluation mode it returns the values
  of the parameter tensors; with dropout active it returns something else.
\<close>

definition reading_torch :: "nat torch" where
  "reading_torch =
     \<lparr>forward = (\<lambda>ps tr gr d.
         if tr then Inr [NaN] else Inr (concat (map (\<lambda>(k, t). t_values t) ps))),
      adam = (\<lambda>ps lr. 0),
      backward_step = (\<lambda>opt ps d loss. (Suc opt, ps))\<rparr>"


text \<open>
  A forward pass that rejects a feature matrix without rows, as the first
  message-passing layer does, and returns one probability otherwise.
\<close>

definition row_checking_torch :: "nat torch" where
  "row_checking_torch =
     \<lparr>forward = (\<lambda>ps tr gr d.
         if data_x d = [] then Inl (BackendError ''empty input'') else Inr [Fin (1 / 2)]),
      adam = (\<lambda>ps lr. 0),
      backward_step = (\<lambda>opt ps d loss. (Suc opt, ps))\<rparr>"

section \<open>Properties of the tensor builder\<close>

lemma tensor2d_Inr: "tensor2d rows = Inr m \<Longrightarrow> length m = length rows"
  by (cases rows) (auto split: if_splits)

lemma create_graph_data_fields:
  assumes "create_graph_data nodes edges labels = Inr d"
  shows "length (data_x d) = length nodes"
    and "data_edge_index d = (map source edges, map target edges)"
    and "data_y d = (case labels of None \<Rightarrow> None | Some [] \<Rightarrow> None | Some ls \<Rightarrow> Some ls)"
  using assms
  by (auto simp: create_graph_data_def Let_def
      split: sum.splits if_splits option.splits list.splits dest: tensor2d_Inr)

lemma create_graph_data_errors:
  "create_graph_data nodes edges labels = Inl e \<Longrightarrow> e = ValueError \<or> e = RuntimeError"
  by (cases "map features nodes")
     (auto simp: create_graph_data_def Let_def
       split: sum.splits if_splits option.splits list.splits)

text \<open>
  Claim C1, as stated, fails. Two nodes with store ids 17 and 42 and an edge from 17 to
  a node 99 that is not in the node list: the builder returns a tensor whose edge index
  holds 17 and 99 although the matrix has only two rows, and raises nothing.
\<close>

theorem create_graph_data_raw_ids_counterexample:
  "create_graph_data
     [\<lparr>node_id = 17, features = [Fin 1]\<rparr>, \<lparr>node_id = 42, features = [Fin 2]\<rparr>]
     [\<lparr>source = 17, target = 99, rel_type = ''CONNECTED_TO''\<rparr>] None
   = Inr \<lparr>data_x = [[Fin 1], [Fin 2]], data_edge_index = ([17], [99]), data_y = None\<rparr>
   \<and> \<not> edge_index_valid
        \<lparr>data_x = [[Fin 1], [Fin 2]], data_edge_index = ([17], [99]), data_y = None\<rparr>"
  by (simp add: create_graph_data_def fits_long_def edge_index_valid_def valid_row_def)

text \<open>
  Claim C1, amended: the builder never raises \<open>MissingNodeError\<close>; a built tensor has one
  row per node and its edge index holds the source and target values of the edges as
  they are given, in order, with no translation to row numbers. So the edge index is
  valid exactly when every source and target value already lies in \<open>0 ..< N\<close>.
\<close>

theorem create_graph_data_edge_index_verbatim:
  "create_graph_data nodes edges labels \<noteq> Inl MissingNodeError \<and>
   (\<forall>d. create_graph_data nodes edges labels = Inr d \<longrightarrow>
      length (data_x d) = length nodes \<and>
      data_edge_index d = (map source edges, map target edges) \<and>
      (edge_index_valid d \<longleftrightarrow>
         list_all (\<lambda>e. 0 \<le> source e \<and> source e < int (length nodes) \<and>
                       0 \<le> target e \<and> target e < int (length nodes)) edges))"
proof (intro conjI allI impI)
  show "create_graph_data nodes edges labels \<noteq> Inl MissingNodeError"
    using create_graph_data_errors [of nodes edges labels MissingNodeError] by auto
next
  fix d assume d: "create_graph_data nodes edges labels = Inr d"
  show "length (data_x d) = length nodes"
    using create_graph_data_fields(1) [OF d] by simp
  show "data_edge_index d = (map source edges, map target edges)"
    by (rule create_graph_data_fields(2) [OF d])
  show "edge_index_valid d \<longleftrightarrow>
      list_all (\<lambda>e. 0 \<le> source e \<and> source e < int (length nodes) \<and>
                    0 \<le> target e \<and> target e < int (length nodes)) edges"
    using create_graph_data_fields(1,2) [OF d]
    by (auto simp: edge_index_valid_def valid_row_def list_all_iff)
qed

theorem create_graph_data_edge_index_verbatim_witness:
  "create_graph_data
     [\<lparr>node_id = 17, features = [Fin 1]\<rparr>, \<lparr>node_id = 42, features = [Fin 2]\<rparr>]
     [\<lparr>source = 1, target = 0, rel_type = ''BELONGS_TO''\<rparr>] None
   = Inr \<lparr>data_x = [[Fin 1], [Fin 2]], data_edge_index = ([1], [0]), data_y = None\<rparr>
   \<and> edge_index_valid
       \<lparr>data_x = [[Fin 1], [Fin 2]], data_edge_index = ([1], [0]), data_y = None\<rparr>"
proof -
  let ?ns = "[\<lparr>node_id = 17, features = [Fin 1]\<rparr>, \<lparr>node_id = 42, features = [Fin 2]\<rparr>]"
  let ?es = "[\<lparr>source = 1, target = 0, rel_type = ''BELONGS_TO''\<rparr>]"
  let ?d = "\<lparr>data_x = [[Fin 1], [Fin 2]], data_edge_index = ([1], [0]), data_y = None\<rparr>"
  have run: "create_graph_data ?ns ?es None = Inr ?d"
    by (simp add: create_graph_data_def fits_long_def)
  from create_graph_data_edge_index_verbatim [of ?ns ?es None] run
  have "edge_index_valid ?d \<longleftrightarrow>
      list_all (\<lambda>e. 0 \<le> source e \<and> source e < int (length ?ns) \<and>
                    0 \<le> target e \<and> target e < int (length ?ns)) ?es"
    by blast
  then have "edge_index_valid ?d" by simp
  with run show ?thesis by simp
qed

text \<open>
  Claim C7, as stated, fails. One node and three labels: the builder returns a tensor
  with one row and a label vector of length three, and raises nothing.
\<close>

theorem create_graph_data_label_length_counterexample:
  "create_graph_data [\<lparr>node_id = 17, features = [Fin 1]\<rparr>] [] (Some [1, 0, 1])
   = Inr \<lparr>data_x = [[Fin 1]], data_edge_index = ([], []), data_y = Some [1, 0, 1]\<rparr>"
  by (simp add: create_graph_data_def fits_long_def)

text \<open>
  Claim C7, amended: the builder never raises \<open>LabelMismatchError\<close> and does not compare
  the number of labels with the number of nodes. A built tensor has one row per node;
  its label vector is the given label sequence, whatever its length, and is absent
  when no labels or an empty sequence are given.
\<close>

theorem create_graph_data_labels_verbatim:
  "create_graph_data nodes edges labels \<noteq> Inl LabelMismatchError \<and>
   (\<forall>d. create_graph_data nodes edges labels = Inr d \<longrightarrow>
      length (data_x d) = length nodes \<and>
      data_y d = (case labels of None \<Rightarrow> None | Some [] \<Rightarrow> None | Some ls \<Rightarrow> Some ls))"
proof (intro conjI allI impI)
  show "create_graph_data nodes edges labels \<noteq> Inl LabelMismatchError"
    using create_graph_data_errors [of nodes edges labels LabelMismatchError] by auto
next
  fix d assume d: "create_graph_data nodes edges labels = Inr d"
  show "length (data_x d) = length nodes"
    using create_graph_data_fields(1) [OF d] by simp
  show "data_y d = (case labels of None \<Rightarrow> None | Some [] \<Rightarrow> None | Some ls \<Rightarrow> Some ls)"
    by (rule create_graph_data_fields(3) [OF d])
qed

theorem create_graph_data_labels_verbatim_witness:
  "create_graph_data [\<lparr>node_id = 17, features = [Fin 1]\<rparr>] [] (Some [1, 0])
     = Inr \<lparr>data_x = [[Fin 1]], data_edge_index = ([], []), data_y = Some [1, 0]\<rparr>
   \<and> length (data_x \<lparr>data_x = [[Fin 1]], data_edge_index = ([], []), data_y = Some [1, 0]\<rparr>)
       = length [\<lparr>node_id = 17, features = [Fin 1]\<rparr>]
   \<and> data_y \<lparr>data_x = [[Fin 1]], data_edge_index = ([], []), data_y = Some [1, 0]\<rparr>
       = Some [1, 0]"
proof -
  let ?ns = "[\<lparr>node_id = 17, features = [Fin 1]\<rparr>]"
  let ?d = "\<lparr>data_x = [[Fin 1]], data_edge_index = ([], []), data_y = Some [1, 0]\<rparr>"
  have run: "create_graph_data ?ns [] (Some [1, 0]) = Inr ?d"
    by (simp add: create_graph_data_def fits_long_def)
  from create_graph_data_labels_verbatim [of ?ns "[]" "Some [1, 0]"] run
  have "length (data_x ?d) = length ?ns \<and> data_y ?d = Some [1, 0]"
    by simp
  with run show ?thesis by simp
qed

section \<open>Properties of the classifier\<close>

text \<open>
  Claim C5, as stated, fails. A model whose \<open>training\<close> flag is set, as it is after
  construction and after \<open>train\<close>, has the flag cleared when \<open>predict\<close> returns.
\<close>

theorem predict_sets_eval_counterexample:
  "fst (predict (const_torch (Inr [Fin (1 / 2)]))
          \<lparr>params = [], training = True\<rparr>
          \<lparr>data_x = [[Fin 1]], data_edge_index = ([], []), data_y = None\<rparr> (Fin (1 / 2)))
     = \<lparr>params = [], training = False\<rparr>
   \<and> \<lparr>params = [], training = False\<rparr> \<noteq> \<lparr>params = [], training = True\<rparr>"
  by (simp add: predict_def const_torch_def)

text \<open>
  Claim C5, amended: \<open>predict\<close> runs the forward pass with the \<open>training\<close> flag cleared
  and without gradient tracking, and leaves the trainable parameters unchanged. It
  leaves the \<open>training\<close> flag cleared, so the model state after the call equals the
  state before it exactly when the model was already in evaluation mode.
\<close>

theorem predict_inference_mode:
  "params (fst (predict T m d threshold)) = params m \<and>
   training (fst (predict T m d threshold)) = False \<and>
   snd (predict T m d threshold) =
     (case forward T (params m) False False d of
        Inl e \<Rightarrow> Inl e
      | Inr probabilities \<Rightarrow>
          Inr (probabilities,
               map (\<lambda>p. if fgt p threshold then Fin 1 else Fin 0) probabilities)) \<and>
   (fst (predict T m d threshold) = m \<longleftrightarrow> \<not> training m)"
proof -
  have "fst (predict T m d threshold) = m\<lparr>training := False\<rparr>"
    by (simp add: predict_def Let_def split: sum.splits)
  moreover have "(m\<lparr>training := False\<rparr> = m) \<longleftrightarrow> \<not> training m"
    by (cases m) auto
  ultimately show ?thesis
    by (simp add: predict_def Let_def split: sum.splits)
qed

theorem predict_inference_mode_witness:
  "fst (predict (const_torch (Inr [Fin (1 / 2)]))
          \<lparr>params = [], training = False\<rparr>
          \<lparr>data_x = [[Fin 1]], data_edge_index = ([], []), data_y = None\<rparr> (Fin (1 / 4)))
     = \<lparr>params = [], training = False\<rparr>
   \<and> snd (predict (const_torch (Inr [Fin (1 / 2)]))
          \<lparr>params = [], training = False\<rparr>
          \<lparr>data_x = [[Fin 1]], data_edge_index = ([], []), data_y = None\<rparr> (Fin (1 / 4)))
     = Inr ([Fin (1 / 2)], [Fin 1])"
  using predict_inference_mode
    [of "const_torch (Inr [Fin (1 / 2)])" "\<lparr>params = [], training = False\<rparr>"
        "\<lparr>data_x = [[Fin 1]], data_edge_index = ([], []), data_y = None\<rparr>" "Fin (1 / 4)"]
  by (simp add: const_torch_def)

section \<open>Properties of the training loop\<close>

text \<open>
  Claim C10: with an empty list of training examples and at least one epoch, \<open>train\<close>
  raises \<open>ZeroDivisionError\<close>: the first epoch divides the total loss by the number of
  examples.
\<close>

theorem train_empty_examples_zero_division:
  assumes "1 \<le> epochs"
  shows "snd (train T det [] epochs learning_rate batch_size) = Inl ZeroDivisionError"
proof -
  from assms obtain k where k: "nat epochs = Suc k"
    by (cases "nat epochs") auto
  show ?thesis
    by (simp add: train_def Let_def k)
qed

theorem train_empty_examples_zero_division_witness:
  "(1::int) \<le> 3 \<and>
   snd (train (const_torch (Inr [Fin (1 / 2)]))
          \<lparr>model = \<lparr>params = [], training = False\<rparr>, device = ''cpu''\<rparr>
          [] 3 (Fin (1 / 1000)) 32) = Inl ZeroDivisionError"
  using train_empty_examples_zero_division
    [of 3 "const_torch (Inr [Fin (1 / 2)])"
        "\<lparr>model = \<lparr>params = [], training = False\<rparr>, device = ''cpu''\<rparr>"
        "Fin (1 / 1000)" 32]
  by simp

section \<open>Properties of subgraph retrieval\<close>

lemma keep_first_append:
  "keep_first key S (xs @ ys) = keep_first key S xs @ keep_first key (S \<union> key ` set xs) ys"
  by (induction xs arbitrary: S) (auto simp: insert_absorb)

lemma keep_first_keys: "key ` set (keep_first key S xs) = key ` set xs - S"
  by (induction xs arbitrary: S) auto

lemma keep_first_distinct: "distinct (map key (keep_first key S xs))"
proof (induction xs arbitrary: S)
  case Nil
  show ?case by simp
next
  case (Cons x xs)
  have "key x \<notin> key ` set (keep_first key (insert (key x) S) xs)"
    by (simp add: keep_first_keys)
  with Cons show ?case by auto
qed

lemma keep_first_find:
  "find (\<lambda>x. key x = k) (keep_first key S xs) =
     (if k \<in> S then None else find (\<lambda>x. key x = k) xs)"
  by (induction xs arbitrary: S) auto

lemma find_map: "find P (map f xs) = map_option f (find (\<lambda>x. P (f x)) xs)"
  by (induction xs) auto

lemma foldl_visit_rel:
  "foldl visit_rel st rs =
     st\<lparr>sg_edges := sg_edges st @
           map (\<lambda>r. \<lparr>source = r_start r, target = r_end r, rel_type = r_type r\<rparr>)
             (keep_first edge_key (seen_edges st) rs),
        seen_edges := seen_edges st \<union> edge_key ` set rs\<rparr>"
proof (induction rs arbitrary: st)
  case Nil
  show ?case by simp
next
  case (Cons r rs)
  have "foldl visit_rel st (r # rs) = foldl visit_rel (visit_rel st r) rs"
    by simp
  also have "\<dots> = (visit_rel st r)\<lparr>sg_edges := sg_edges (visit_rel st r) @
           map (\<lambda>r. \<lparr>source = r_start r, target = r_end r, rel_type = r_type r\<rparr>)
             (keep_first edge_key (seen_edges (visit_rel st r)) rs),
        seen_edges := seen_edges (visit_rel st r) \<union> edge_key ` set rs\<rparr>"
    by (rule Cons)
  also have "\<dots> = st\<lparr>sg_edges := sg_edges st @
           map (\<lambda>r. \<lparr>source = r_start r, target = r_end r, rel_type = r_type r\<rparr>)
             (keep_first edge_key (seen_edges st) (r # rs)),
        seen_edges := seen_edges st \<union> edge_key ` set (r # rs)\<rparr>"
    by (simp add: visit_rel_def insert_absorb)
  finally show ?case .
qed

lemma foldl_visit_node:
  "foldl visit_node st ns =
     st\<lparr>sg_nodes := sg_nodes st @
           map (\<lambda>n. \<lparr>node_id = n_id n, features = extract_node_features n\<rparr>)
             (keep_first n_id (seen_nodes st) ns),
        seen_nodes := seen_nodes st \<union> n_id ` set ns\<rparr>"
proof (induction ns arbitrary: st)
  case Nil
  show ?case by simp
next
  case (Cons n ns)
  have "foldl visit_node st (n # ns) = foldl visit_node (visit_node st n) ns"
    by simp
  also have "\<dots> = (visit_node st n)\<lparr>sg_nodes := sg_nodes (visit_node st n) @
           map (\<lambda>n. \<lparr>node_id = n_id n, features = extract_node_features n\<rparr>)
             (keep_first n_id (seen_nodes (visit_node st n)) ns),
        seen_nodes := seen_nodes (visit_node st n) \<union> n_id ` set ns\<rparr>"
    by (rule Cons)
  also have "\<dots> = st\<lparr>sg_nodes := sg_nodes st @
           map (\<lambda>n. \<lparr>node_id = n_id n, features = extract_node_features n\<rparr>)
             (keep_first n_id (seen_nodes st) (n # ns)),
        seen_nodes := seen_nodes st \<union> n_id ` set (n # ns)\<rparr>"
    by (simp add: visit_node_def insert_absorb)
  finally show ?case .
qed

lemma foldl_visit_record:
  "foldl visit_record st records =
     st\<lparr>sg_nodes := sg_nodes st @
           map (\<lambda>n. \<lparr>node_id = n_id n, features = extract_node_features n\<rparr>)
             (keep_first n_id (seen_nodes st) (concat (map p_nodes records))),
        seen_nodes := seen_nodes st \<union> n_id ` set (concat (map p_nodes records)),
        sg_edges := sg_edges st @
           map (\<lambda>r. \<lparr>source = r_start r, target = r_end r, rel_type = r_type r\<rparr>)
             (keep_first edge_key (seen_edges st) (concat (map p_rels records))),
        seen_edges := seen_edges st \<union> edge_key ` set (concat (map p_rels records))\<rparr>"
proof (induction records arbitrary: st)
  case Nil
  show ?case by simp
next
  case (Cons p ps)
  have "foldl visit_record st (p # ps) = foldl visit_record (visit_record st p) ps"
    by simp
  also have "\<dots> = (visit_record st p)\<lparr>sg_nodes := sg_nodes (visit_record st p) @
           map (\<lambda>n. \<lparr>node_id = n_id n, features = extract_node_features n\<rparr>)
             (keep_first n_id (seen_nodes (visit_record st p)) (concat (map p_nodes ps))),
        seen_nodes := seen_nodes (visit_record st p) \<union> n_id ` set (concat (map p_nodes ps)),
        sg_edges := sg_edges (visit_record st p) @
           map (\<lambda>r. \<lparr>source = r_start r, target = r_end r, rel_type = r_type r\<rparr>)
             (keep_first edge_key (seen_edges (visit_record st p)) (concat (map p_rels ps))),
        seen_edges := seen_edges (visit_record st p) \<union> edge_key ` set (concat (map p_rels ps))\<rparr>"
    by (rule Cons)
  also have "\<dots> = st\<lparr>sg_nodes := sg_nodes st @
           map (\<lambda>n. \<lparr>node_id = n_id n, features = extract_node_features n\<rparr>)
             (keep_first n_id (seen_nodes st) (concat (map p_nodes (p # ps)))),
        seen_nodes := seen_nodes st \<union> n_id ` set (concat (map p_nodes (p # ps))),
        sg_edges := sg_edges st @
           map (\<lambda>r. \<lparr>source = r_start r, target = r_end r, rel_type = r_type r\<rparr>)
             (keep_first edge_key (seen_edges st) (concat (map p_rels (p # ps)))),
        seen_edges := seen_edges st \<union> edge_key ` set (concat (map p_rels (p # ps)))\<rparr>"
    by (simp add: visit_record_def foldl_visit_rel foldl_visit_node keep_first_append
        Un_assoc image_Un)
  finally show ?case .
qed

lemma collect_subgraph_keep_first:
  "collect_subgraph records =
     (map (\<lambda>n. \<lparr>node_id = n_id n, features = extract_node_features n\<rparr>)
        (keep_first n_id {} (concat (map p_nodes records))),
      map (\<lambda>r. \<lparr>source = r_start r, target = r_end r, rel_type = r_type r\<rparr>)
        (keep_first edge_key {} (concat (map p_rels records))))"
  by (simp add: collect_subgraph_def Let_def foldl_visit_record)

lemma collect_subgraph_first_seen:
  assumes "collect_subgraph records = (ns, es)"
  shows "distinct (map (\<lambda>e. (source e, target e)) es) \<and>
     (\<forall>k. find (\<lambda>e. (source e, target e) = k) es =
        map_option (\<lambda>r. \<lparr>source = r_start r, target = r_end r, rel_type = r_type r\<rparr>)
          (find (\<lambda>r. (r_start r, r_end r) = k) (concat (map p_rels records)))) \<and>
     distinct (map node_id ns) \<and>
     (\<forall>i. find (\<lambda>n. node_id n = i) ns =
        map_option (\<lambda>n. \<lparr>node_id = n_id n, features = extract_node_features n\<rparr>)
          (find (\<lambda>n. n_id n = i) (concat (map p_nodes records))))"
proof -
  let ?rs = "keep_first edge_key {} (concat (map p_rels records))"
  let ?ns = "keep_first n_id {} (concat (map p_nodes records))"
  from assms have es: "es = map (\<lambda>r. \<lparr>source = r_start r, target = r_end r, rel_type = r_type r\<rparr>) ?rs"
    and ns: "ns = map (\<lambda>n. \<lparr>node_id = n_id n, features = extract_node_features n\<rparr>) ?ns"
    by (simp_all add: collect_subgraph_keep_first)
  have k1: "map (\<lambda>e. (source e, target e)) es = map edge_key ?rs"
    by (simp add: es edge_key_def comp_def)
  have k2: "map node_id ns = map n_id ?ns"
    by (simp add: ns comp_def)
  have d1: "distinct (map (\<lambda>e. (source e, target e)) es)"
    unfolding k1 by (rule keep_first_distinct)
  have d2: "distinct (map node_id ns)"
    unfolding k2 by (rule keep_first_distinct)
  have f1: "find (\<lambda>e. (source e, target e) = k) es =
        map_option (\<lambda>r. \<lparr>source = r_start r, target = r_end r, rel_type = r_type r\<rparr>)
          (find (\<lambda>r. (r_start r, r_end r) = k) (concat (map p_rels records)))" for k
    using keep_first_find [of edge_key k "{}" "concat (map p_rels records)"]
    by (simp add: es find_map edge_key_def)
  have f2: "find (\<lambda>n. node_id n = i) ns =
        map_option (\<lambda>n. \<lparr>node_id = n_id n, features = extract_node_features n\<rparr>)
          (find (\<lambda>n. n_id n = i) (concat (map p_nodes records)))" for i
    using keep_first_find [of n_id i "{}" "concat (map p_nodes records)"]
    by (simp add: ns find_map)
  from d1 d2 f1 f2 show ?thesis by blast
qed

text \<open>
  Claim C4: the edges that \<open>_get_subgraph\<close> returns have pairwise different
  (source, target) pairs, and for every pair the returned edge, type included, is the
  first relationship with that pair in the order in which the records of the query
  list their relationships; the relationship type plays no part in the comparison.
  Likewise the returned nodes have pairwise different store ids, and each is the first
  node with its id in that order.
\<close>

theorem get_subgraph_keeps_first_edge_per_pair:
  assumes "get_subgraph s v depth = (ns, es)"
  shows "distinct (map (\<lambda>e. (source e, target e)) es) \<and>
     (\<forall>k. find (\<lambda>e. (source e, target e) = k) es =
        map_option (\<lambda>r. \<lparr>source = r_start r, target = r_end r, rel_type = r_type r\<rparr>)
          (find (\<lambda>r. (r_start r, r_end r) = k)
             (concat (map p_rels (run_subgraph_query s v depth))))) \<and>
     distinct (map node_id ns) \<and>
     (\<forall>i. find (\<lambda>n. node_id n = i) ns =
        map_option (\<lambda>n. \<lparr>node_id = n_id n, features = extract_node_features n\<rparr>)
          (find (\<lambda>n. n_id n = i) (concat (map p_nodes (run_subgraph_query s v depth)))))"
  using assms unfolding get_subgraph_def by (rule collect_subgraph_first_seen)

lemma example_query:
  "concat (map p_rels (run_subgraph_query example_store ''T1'' 2)) =
     [\<lparr>r_id = 0, r_start = 17, r_end = 42, r_type = ''BELONGS_TO'', r_props = []\<rparr>,
      \<lparr>r_id = 0, r_start = 17, r_end = 42, r_type = ''BELONGS_TO'', r_props = []\<rparr>,
      \<lparr>r_id = 1, r_start = 17, r_end = 42, r_type = ''CONNECTED_TO'', r_props = []\<rparr>,
      \<lparr>r_id = 1, r_start = 17, r_end = 42, r_type = ''CONNECTED_TO'', r_props = []\<rparr>,
      \<lparr>r_id = 1, r_start = 17, r_end = 42, r_type = ''CONNECTED_TO'', r_props = []\<rparr>,
      \<lparr>r_id = 0, r_start = 17, r_end = 42, r_type = ''BELONGS_TO'', r_props = []\<rparr>]"
  by (simp add: run_subgraph_query_def example_store_def match_start_def has_id_def
      numeral_2_eq_2 neighbours_def)

lemma example_subgraph:
  "get_subgraph example_store ''T1'' 2 =
     ([\<lparr>node_id = 17, features = [Fin 250]\<rparr>, \<lparr>node_id = 42, features = [Fin (1 / 4)]\<rparr>],
      [\<lparr>source = 17, target = 42, rel_type = ''BELONGS_TO''\<rparr>])"
  by (simp add: get_subgraph_def run_subgraph_query_def example_store_def match_start_def
      has_id_def numeral_2_eq_2 neighbours_def collect_subgraph_def visit_record_def
      visit_node_def visit_rel_def edge_key_def extract_node_features_def)

theorem get_subgraph_keeps_first_edge_per_pair_witness:
  "get_subgraph example_store ''T1'' 2 =
     ([\<lparr>node_id = 17, features = [Fin 250]\<rparr>, \<lparr>node_id = 42, features = [Fin (1 / 4)]\<rparr>],
      [\<lparr>source = 17, target = 42, rel_type = ''BELONGS_TO''\<rparr>]) \<and>
   find (\<lambda>e. (source e, target e) = (17, 42))
     [\<lparr>source = 17, target = 42, rel_type = ''BELONGS_TO''\<rparr>] =
     map_option (\<lambda>r. \<lparr>source = r_start r, target = r_end r, rel_type = r_type r\<rparr>)
       (find (\<lambda>r. (r_start r, r_end r) = (17, 42))
          (concat (map p_rels (run_subgraph_query example_store ''T1'' 2)))) \<and>
   map r_type (concat (map p_rels (run_subgraph_query example_store ''T1'' 2))) =
     [''BELONGS_TO'', ''BELONGS_TO'', ''CONNECTED_TO'', ''CONNECTED_TO'', ''CONNECTED_TO'',
      ''BELONGS_TO'']"
  using get_subgraph_keeps_first_edge_per_pair [OF example_subgraph] example_subgraph
  by (simp add: example_query)

section \<open>Properties of graph mutation\<close>

lemma foldl_create_connected_to:
  "\<exists>new. foldl (create_connected_to t rel) s ns = s\<lparr>s_rels := s_rels s @ new\<rparr> \<and>
         map r_end new = map n_id ns \<and>
         (\<forall>r\<in>set new. r_type r = ''CONNECTED_TO'' \<and> r_start r = n_id t \<and>
                        r_props r = stored_props (properties rel))"
proof (induction ns arbitrary: s)
  case Nil
  show ?case by (rule exI [of _ "[]"]) simp
next
  case (Cons n ns)
  let ?r = "\<lparr>r_id = fresh_id (map r_id (s_rels s)), r_start = n_id t, r_end = n_id n,
             r_type = ''CONNECTED_TO'', r_props = stored_props (properties rel)\<rparr>"
  let ?s1 = "s\<lparr>s_rels := s_rels s @ [?r]\<rparr>"
  from Cons [of ?s1] obtain new where
    new: "foldl (create_connected_to t rel) ?s1 ns = ?s1\<lparr>s_rels := s_rels ?s1 @ new\<rparr>"
      "map r_end new = map n_id ns"
      "\<forall>r\<in>set new. r_type r = ''CONNECTED_TO'' \<and> r_start r = n_id t \<and>
                        r_props r = stored_props (properties rel)"
    by blast
  have "foldl (create_connected_to t rel) s (n # ns) = s\<lparr>s_rels := s_rels s @ (?r # new)\<rparr>"
    using new(1) by (simp add: create_connected_to_def)
  moreover have "map r_end (?r # new) = map n_id (n # ns)"
    using new(2) by simp
  moreover have "\<forall>r\<in>set (?r # new). r_type r = ''CONNECTED_TO'' \<and> r_start r = n_id t \<and>
                        r_props r = stored_props (properties rel)"
    using new(3) by simp
  ultimately show ?case by blast
qed

lemma connect_relationship_edges:
  "\<exists>new. connect_relationship t s rel = s\<lparr>s_rels := s_rels s @ new\<rparr> \<and>
         list_all (new_edge_ok t (s_nodes s) [rel]) new"
proof -
  let ?ns = "filter (\<lambda>n. has_id n (related_id rel)) (s_nodes s)"
  from foldl_create_connected_to [of t rel s ?ns] obtain new where
    new: "foldl (create_connected_to t rel) s ?ns = s\<lparr>s_rels := s_rels s @ new\<rparr>"
      "map r_end new = map n_id ?ns"
      "\<forall>r\<in>set new. r_type r = ''CONNECTED_TO'' \<and> r_start r = n_id t \<and>
                        r_props r = stored_props (properties rel)"
    by blast
  have "list_all (new_edge_ok t (s_nodes s) [rel]) new"
  proof -
    have "new_edge_ok t (s_nodes s) [rel] r" if r: "r \<in> set new" for r
    proof -
      from r have "r_end r \<in> set (map r_end new)" by simp
      with new(2) have "r_end r \<in> set (map n_id ?ns)" by simp
      then obtain n where "n \<in> set (s_nodes s)" "has_id n (related_id rel)" "n_id n = r_end r"
        by auto
      with new(3) r show ?thesis
        by (auto simp: new_edge_ok_def list_ex_iff)
    qed
    then show ?thesis by (simp add: list_all_iff)
  qed
  with new(1) show ?thesis
    by (auto simp: connect_relationship_def)
qed

lemma new_edge_ok_mono:
  "new_edge_ok t ns rels r \<Longrightarrow> set rels \<subseteq> set rels' \<Longrightarrow> new_edge_ok t ns rels' r"
  by (auto simp: new_edge_ok_def list_ex_iff)

lemma foldl_connect_relationship:
  "\<exists>new. foldl (connect_relationship t) s rels = s\<lparr>s_rels := s_rels s @ new\<rparr> \<and>
         list_all (new_edge_ok t (s_nodes s) rels) new"
proof (induction rels arbitrary: s)
  case Nil
  show ?case by (rule exI [of _ "[]"]) simp
next
  case (Cons rel rels)
  from connect_relationship_edges [of t s rel] obtain n1 where
    n1: "connect_relationship t s rel = s\<lparr>s_rels := s_rels s @ n1\<rparr>"
      "list_all (new_edge_ok t (s_nodes s) [rel]) n1"
    by blast
  let ?s1 = "s\<lparr>s_rels := s_rels s @ n1\<rparr>"
  from Cons [of ?s1] obtain n2 where
    n2: "foldl (connect_relationship t) ?s1 rels = ?s1\<lparr>s_rels := s_rels ?s1 @ n2\<rparr>"
      "list_all (new_edge_ok t (s_nodes ?s1) rels) n2"
    by blast
  have "foldl (connect_relationship t) s (rel # rels) = s\<lparr>s_rels := s_rels s @ (n1 @ n2)\<rparr>"
    using n1(1) n2(1) by simp
  moreover have "list_all (new_edge_ok t (s_nodes s) (rel # rels)) (n1 @ n2)"
    using n1(2) n2(2)
    by (auto simp: list_all_iff intro: new_edge_ok_mono)
  ultimately show ?case by blast
qed

lemma update_graph_result:
  "update_graph s td rels =
     (if violates_unique s (transaction_node s td) then Inl ConstraintError
      else Inr (foldl (connect_relationship (transaction_node s td))
                  (s\<lparr>s_nodes := s_nodes s @ [transaction_node s td]\<rparr>) rels))"
  by (simp add: update_graph_def Let_def)

lemma update_graph_shape:
  assumes "update_graph s td rels = Inr s'"
  shows "s_nodes s' = s_nodes s @ [transaction_node s td]"
    and "s_unique s' = s_unique s"
    and "take (length (s_rels s)) (s_rels s') = s_rels s"
    and "list_all (new_edge_ok (transaction_node s td) (s_nodes s') rels)
           (drop (length (s_rels s)) (s_rels s'))"
proof -
  let ?t = "transaction_node s td"
  let ?s1 = "s\<lparr>s_nodes := s_nodes s @ [?t]\<rparr>"
  from assms have s': "s' = foldl (connect_relationship ?t) ?s1 rels"
    by (simp add: update_graph_result split: if_splits)
  from foldl_connect_relationship [of ?t ?s1 rels] obtain new where
    new: "foldl (connect_relationship ?t) ?s1 rels = ?s1\<lparr>s_rels := s_rels ?s1 @ new\<rparr>"
      "list_all (new_edge_ok ?t (s_nodes ?s1) rels) new"
    by blast
  from new(1) s' have eq: "s' = ?s1\<lparr>s_rels := s_rels s @ new\<rparr>" by simp
  show "s_nodes s' = s_nodes s @ [?t]" by (simp add: eq)
  show "s_unique s' = s_unique s" by (simp add: eq)
  show "take (length (s_rels s)) (s_rels s') = s_rels s" by (simp add: eq)
  show "list_all (new_edge_ok ?t (s_nodes s') rels) (drop (length (s_rels s)) (s_rels s'))"
    using new(2) by (simp add: eq)
qed

text \<open>
  Claim C9: \<open>update_graph\<close> keeps the relationships of the store and every edge it adds
  has the relationship type \<open>CONNECTED_TO\<close>, never \<open>BELONGS_TO\<close>; what a relationship
  declares in its properties, a \<open>type\<close> included, is stored as properties of the edge.
\<close>

theorem update_graph_creates_connected_to_only:
  assumes "update_graph s transaction_data relationships = Inr s'"
  shows "take (length (s_rels s)) (s_rels s') = s_rels s \<and>
     list_all (\<lambda>r. r_type r = ''CONNECTED_TO'' \<and> r_type r \<noteq> ''BELONGS_TO'' \<and>
                   list_ex (\<lambda>rel. r_props r = stored_props (properties rel)) relationships)
       (drop (length (s_rels s)) (s_rels s'))"
proof -
  have "list_all (\<lambda>r. r_type r = ''CONNECTED_TO'' \<and> r_type r \<noteq> ''BELONGS_TO'' \<and>
                   list_ex (\<lambda>rel. r_props r = stored_props (properties rel)) relationships)
       (drop (length (s_rels s)) (s_rels s'))"
    using update_graph_shape(4) [OF assms]
    by (auto simp: list_all_iff list_ex_iff new_edge_ok_def)
  with update_graph_shape(3) [OF assms] show ?thesis by simp
qed

text \<open>
  The arguments that the \<open>/predict\<close> route passes: the relationship meant as
  \<open>BELONGS_TO\<close> becomes a \<open>CONNECTED_TO\<close> edge with the property \<open>type\<close>.
\<close>

theorem update_graph_creates_connected_to_only_witness:
  "update_graph example_store (transaction_dict example_transaction)
     (route_relationships example_transaction) =
     Inr (example_store
       \<lparr>s_nodes := s_nodes example_store @
          [\<lparr>n_id = 43, n_labels = [''Transaction''],
            n_props = transaction_dict example_transaction\<rparr>],
        s_rels := s_rels example_store @
          [\<lparr>r_id = 2, r_start = 43, r_end = 42, r_type = ''CONNECTED_TO'',
            r_props = [(''type'', PStr ''BELONGS_TO'')]\<rparr>]\<rparr>) \<and>
   list_all (\<lambda>r. r_type r = ''CONNECTED_TO'' \<and> r_type r \<noteq> ''BELONGS_TO'' \<and>
                 list_ex (\<lambda>rel. r_props r = stored_props (properties rel))
                   (route_relationships example_transaction))
     [\<lparr>r_id = 2, r_start = 43, r_end = 42, r_type = ''CONNECTED_TO'',
       r_props = [(''type'', PStr ''BELONGS_TO'')]\<rparr>]"
proof -
  let ?s' = "example_store
       \<lparr>s_nodes := s_nodes example_store @
          [\<lparr>n_id = 43, n_labels = [''Transaction''],
            n_props = transaction_dict example_transaction\<rparr>],
        s_rels := s_rels example_store @
          [\<lparr>r_id = 2, r_start = 43, r_end = 42, r_type = ''CONNECTED_TO'',
            r_props = [(''type'', PStr ''BELONGS_TO'')]\<rparr>]\<rparr>"
  have run: "update_graph example_store (transaction_dict example_transaction)
     (route_relationships example_transaction) = Inr ?s'"
    by (simp add: update_graph_def transaction_node_def example_store_def
        example_transaction_def transaction_dict_def route_relationships_def
        violates_unique_def stored_props_def fresh_id_def connect_relationship_def
        create_connected_to_def has_id_def)
  from update_graph_creates_connected_to_only [OF run] run show ?thesis
    by simp
qed

text \<open>
  Claim C3, as stated, fails. The route's arguments for a transaction whose user \<open>U9\<close>
  is not in the store: the call returns, the transaction node is in the store
  afterwards, and no edge has been added.
\<close>

theorem update_graph_missing_target_counterexample:
  "update_graph example_store (transaction_dict (example_transaction\<lparr>user_id := ''U9''\<rparr>))
     (route_relationships (example_transaction\<lparr>user_id := ''U9''\<rparr>)) =
     Inr (example_store
       \<lparr>s_nodes := s_nodes example_store @
          [\<lparr>n_id = 43, n_labels = [''Transaction''],
            n_props = transaction_dict (example_transaction\<lparr>user_id := ''U9''\<rparr>)\<rparr>]\<rparr>) \<and>
   list_all (\<lambda>n. \<not> has_id n ''U9'') (s_nodes example_store)"
  by (simp add: update_graph_def transaction_node_def example_store_def
        example_transaction_def transaction_dict_def route_relationships_def
        violates_unique_def stored_props_def fresh_id_def connect_relationship_def
        create_connected_to_def has_id_def)

lemma update_graph_errors:
  "update_graph s td rels = Inl e \<Longrightarrow> e = ConstraintError"
  by (simp add: update_graph_result split: if_splits)

text \<open>
  Claim C3, amended: \<open>update_graph\<close> never raises \<open>DanglingReferenceError\<close>. Unless a
  uniqueness constraint rejects the new node, the call succeeds: the transaction node
  is the one node added, so no stub node is created, the relationships of the store
  are kept, and every added edge ends at a node of the store whose \<open>id\<close> is a declared
  related id. A relationship whose related id matches no node adds nothing: when no
  declared target exists, the relationships of the store are unchanged.
\<close>

theorem update_graph_skips_missing_targets:
  "update_graph s transaction_data relationships \<noteq> Inl DanglingReferenceError \<and>
   (\<not> violates_unique s (transaction_node s transaction_data) \<longrightarrow>
     (\<exists>s'. update_graph s transaction_data relationships = Inr s' \<and>
        s_nodes s' = s_nodes s @ [transaction_node s transaction_data] \<and>
        take (length (s_rels s)) (s_rels s') = s_rels s \<and>
        list_all (\<lambda>r. list_ex (\<lambda>rel.
                     list_ex (\<lambda>n. n_id n = r_end r \<and> has_id n (related_id rel))
                       (s_nodes s')) relationships)
          (drop (length (s_rels s)) (s_rels s')) \<and>
        (list_all (\<lambda>rel. \<not> list_ex (\<lambda>n. has_id n (related_id rel)) (s_nodes s'))
           relationships \<longrightarrow> s_rels s' = s_rels s)))"
proof (intro conjI impI)
  show "update_graph s transaction_data relationships \<noteq> Inl DanglingReferenceError"
    using update_graph_errors [of s transaction_data relationships DanglingReferenceError]
    by auto
next
  assume nv: "\<not> violates_unique s (transaction_node s transaction_data)"
  then obtain s' where run: "update_graph s transaction_data relationships = Inr s'"
    by (simp add: update_graph_result)
  note sh = update_graph_shape [OF run]
  let ?new = "drop (length (s_rels s)) (s_rels s')"
  have ends: "list_all (\<lambda>r. list_ex (\<lambda>rel.
                     list_ex (\<lambda>n. n_id n = r_end r \<and> has_id n (related_id rel))
                       (s_nodes s')) relationships) ?new"
    using sh(4) unfolding list_all_iff list_ex_iff new_edge_ok_def by blast
  have none: "s_rels s' = s_rels s"
    if "list_all (\<lambda>rel. \<not> list_ex (\<lambda>n. has_id n (related_id rel)) (s_nodes s'))
           relationships"
  proof -
    from that ends have "?new = []"
      by (cases ?new) (auto simp: list_all_iff list_ex_iff)
    moreover have "s_rels s' = take (length (s_rels s)) (s_rels s') @ ?new"
      by simp
    ultimately show ?thesis using sh(3) by simp
  qed
  from run sh(1) sh(3) ends none
  show "\<exists>s'. update_graph s transaction_data relationships = Inr s' \<and>
        s_nodes s' = s_nodes s @ [transaction_node s transaction_data] \<and>
        take (length (s_rels s)) (s_rels s') = s_rels s \<and>
        list_all (\<lambda>r. list_ex (\<lambda>rel.
                     list_ex (\<lambda>n. n_id n = r_end r \<and> has_id n (related_id rel))
                       (s_nodes s')) relationships)
          (drop (length (s_rels s)) (s_rels s')) \<and>
        (list_all (\<lambda>rel. \<not> list_ex (\<lambda>n. has_id n (related_id rel)) (s_nodes s'))
           relationships \<longrightarrow> s_rels s' = s_rels s)"
    by blast
qed

theorem update_graph_skips_missing_targets_witness:
  "\<not> violates_unique example_store
       (transaction_node example_store [(''id'', PStr ''T3'')]) \<and>
   update_graph example_store [(''id'', PStr ''T3'')]
     [\<lparr>related_id = ''U1'', properties = []\<rparr>, \<lparr>related_id = ''U8'', properties = []\<rparr>] =
     Inr (example_store
       \<lparr>s_nodes := s_nodes example_store @
          [\<lparr>n_id = 43, n_labels = [''Transaction''], n_props = [(''id'', PStr ''T3'')]\<rparr>],
        s_rels := s_rels example_store @
          [\<lparr>r_id = 2, r_start = 43, r_end = 42, r_type = ''CONNECTED_TO'',
            r_props = []\<rparr>]\<rparr>)"
proof -
  have nv: "\<not> violates_unique example_store
       (transaction_node example_store [(''id'', PStr ''T3'')])"
    by (simp add: violates_unique_def transaction_node_def example_store_def
        stored_props_def)
  have run: "update_graph example_store [(''id'', PStr ''T3'')]
     [\<lparr>related_id = ''U1'', properties = []\<rparr>, \<lparr>related_id = ''U8'', properties = []\<rparr>] =
     Inr (example_store
       \<lparr>s_nodes := s_nodes example_store @
          [\<lparr>n_id = 43, n_labels = [''Transaction''], n_props = [(''id'', PStr ''T3'')]\<rparr>],
        s_rels := s_rels example_store @
          [\<lparr>r_id = 2, r_start = 43, r_end = 42, r_type = ''CONNECTED_TO'',
            r_props = []\<rparr>]\<rparr>)"
    by (simp add: update_graph_def transaction_node_def example_store_def
        violates_unique_def stored_props_def fresh_id_def connect_relationship_def
        create_connected_to_def has_id_def)
  from update_graph_skips_missing_targets
         [of example_store "[(''id'', PStr ''T3'')]"
             "[\<lparr>related_id = ''U1'', properties = []\<rparr>, \<lparr>related_id = ''U8'', properties = []\<rparr>]"]
       nv run
  show ?thesis by simp
qed

section \<open>Properties of the training loop: the loss\<close>

















section \<open>Properties of persistence\<close>

lemma load_entries_same_keys:
  assumes "distinct (map fst sd)"
  shows "map fst ps = map fst qs \<Longrightarrow>
     map (\<lambda>(k, t). t_shape t) ps = map (\<lambda>(k, t). t_shape t) qs \<Longrightarrow>
     set qs \<subseteq> set sd \<Longrightarrow> load_entries ps sd = (qs, True)"
proof (induction ps arbitrary: qs)
  case Nil
  then show ?case by simp
next
  case (Cons p ps)
  obtain k t where p: "p = (k, t)" by (cases p)
  from Cons.prems(1) obtain q qs' where qs: "qs = q # qs'"
    by (cases qs) auto
  obtain k' t' where q: "q = (k', t')" by (cases q)
  from Cons.prems(1,2) have k: "k' = k" and sh: "t_shape t' = t_shape t"
    and rest: "map fst ps = map fst qs'"
      "map (\<lambda>(k, t). t_shape t) ps = map (\<lambda>(k, t). t_shape t) qs'"
    by (simp_all add: p qs q)
  from Cons.prems(3) have "(k, t') \<in> set sd" and sub: "set qs' \<subseteq> set sd"
    by (simp_all add: qs q k)
  with assms have look: "map_of sd k = Some t'"
    by simp
  from Cons.IH [OF rest sub] show ?case
    by (simp add: p qs q k look sh)
qed

lemma load_state_dict_same_architecture:
  assumes "same_architecture m1 m2"
  shows "load_state_dict m2 (params m1) = (m2\<lparr>params := params m1\<rparr>, Inr ())"
proof -
  have keys: "map fst (params m1) = map fst (params m2)"
    and shapes: "map (\<lambda>(k, t). t_shape t) (params m1) = map (\<lambda>(k, t). t_shape t) (params m2)"
    and dist: "distinct (map fst (params m1))"
    using assms unfolding same_architecture_def by blast+
  have "load_entries (params m2) (params m1) = (params m1, True)"
    by (rule load_entries_same_keys [OF dist keys [symmetric] shapes [symmetric]]) simp
  moreover have "list_all (\<lambda>k. k \<in> set (map fst (params m2))) (map fst (params m1))"
    unfolding keys by (simp add: list_all_iff)
  ultimately show ?thesis
    by (simp add: load_state_dict_def)
qed

text \<open>
  Claim C8: saving the weights of a detector and loading the file into a detector of
  the same architecture succeeds and gives the second detector the parameters of the
  first; \<open>predict\<close> on the loaded model then returns, for every input and threshold,
  the output of the original model: the two outputs are equal, so they agree within
  every tolerance.
\<close>

theorem save_load_round_trip:
  assumes "same_architecture (model d1) (model d2)"
  shows "load_model d2 (save_model d1 fs path) path =
       (d2\<lparr>model := (model d2)\<lparr>params := params (model d1)\<rparr>\<rparr>, Inr ()) \<and>
     snd (predict T (model (fst (load_model d2 (save_model d1 fs path) path))) x threshold) =
       snd (predict T (model d1) x threshold)"
proof -
  have "load_model d2 (save_model d1 fs path) path =
       (d2\<lparr>model := (model d2)\<lparr>params := params (model d1)\<rparr>\<rparr>, Inr ())"
    by (simp add: load_model_def save_model_def load_state_dict_same_architecture [OF assms])
  then show ?thesis
    by (simp add: predict_def Let_def split: sum.splits)
qed

theorem save_load_round_trip_witness:
  "same_architecture
     \<lparr>params = [(''fc2.weight'', \<lparr>t_shape = [1, 2], t_values = [Fin 3, Fin 4]\<rparr>)],
      training = False\<rparr>
     \<lparr>params = [(''fc2.weight'', \<lparr>t_shape = [1, 2], t_values = [Fin 0, Fin 0]\<rparr>)],
      training = True\<rparr> \<and>
   snd (predict reading_torch
     (model (fst (load_model
        \<lparr>model = \<lparr>params = [(''fc2.weight'', \<lparr>t_shape = [1, 2], t_values = [Fin 0, Fin 0]\<rparr>)],
                   training = True\<rparr>, device = ''cpu''\<rparr>
        (save_model
           \<lparr>model = \<lparr>params = [(''fc2.weight'', \<lparr>t_shape = [1, 2], t_values = [Fin 3, Fin 4]\<rparr>)],
                      training = False\<rparr>, device = ''cpu''\<rparr>
           Map.empty ''model.pt'')
        ''model.pt'')))
     \<lparr>data_x = [[Fin 1]], data_edge_index = ([], []), data_y = None\<rparr> (Fin (1 / 2))) =
   Inr ([Fin 3, Fin 4], [Fin 1, Fin 1])"
proof -
  let ?m1 = "\<lparr>params = [(''fc2.weight'', \<lparr>t_shape = [1, 2], t_values = [Fin 3, Fin 4]\<rparr>)],
      training = False\<rparr>"
  let ?m2 = "\<lparr>params = [(''fc2.weight'', \<lparr>t_shape = [1, 2], t_values = [Fin 0, Fin 0]\<rparr>)],
      training = True\<rparr>"
  have sa: "same_architecture (model \<lparr>model = ?m1, device = ''cpu''\<rparr>)
              (model \<lparr>model = ?m2, device = ''cpu''\<rparr>)"
    by (simp add: same_architecture_def)
  have p1: "snd (predict reading_torch (model \<lparr>model = ?m1, device = ''cpu''\<rparr>)
              \<lparr>data_x = [[Fin 1]], data_edge_index = ([], []), data_y = None\<rparr> (Fin (1 / 2))) =
            Inr ([Fin 3, Fin 4], [Fin 1, Fin 1])"
    by (simp add: predict_def reading_torch_def)
  from save_load_round_trip [OF sa, of Map.empty "''model.pt''" reading_torch
      "\<lparr>data_x = [[Fin 1]], data_edge_index = ([], []), data_y = None\<rparr>" "Fin (1 / 2)",
      THEN conjunct2]
    p1 sa
  show ?thesis by simp
qed

section \<open>Properties of scoring an unknown transaction\<close>

lemma unknown_root_no_start:
  "\<not> list_ex (\<lambda>n. has_id n v) (s_nodes s) \<Longrightarrow> match_start s v = []"
  by (auto simp: match_start_def list_ex_iff filter_empty_conv)

lemma unknown_root_subgraph:
  assumes "\<not> list_ex (\<lambda>n. has_id n v) (s_nodes s)"
  shows "get_subgraph s v depth = ([], [])"
    and "retrieve_context s v depth =
           Inr \<lparr>data_x = [], data_edge_index = ([], []), data_y = None\<rparr>"
    and "get_explanation_context s v = EmptyContext"
  by (simp_all add: get_subgraph_def run_subgraph_query_def collect_subgraph_def
      retrieve_context_def create_graph_data_def get_explanation_context_def
      explanation_records_def unknown_root_no_start [OF assms])

text \<open>
  Claim C2, amended: for a root id that is the \<open>id\<close> of no node of the store,
  \<open>_get_subgraph\<close> returns no node and no edge and \<open>retrieve_context\<close> returns the
  empty tensor, without raising. \<open>predict_fraud\<close> has no fallback for it: it runs the
  forward pass in inference mode on the empty tensor, raises what the forward pass
  raises, raises \<open>IndexError\<close> when the forward pass returns no probability, and
  otherwise returns the first probability with an empty explanation context.
\<close>

theorem unknown_root_empty_context_no_fallback:
  assumes "\<not> list_ex (\<lambda>n. has_id n root_id) (s_nodes s)"
  shows "get_subgraph s root_id depth = ([], []) \<and>
     retrieve_context s root_id depth =
       Inr \<lparr>data_x = [], data_edge_index = ([], []), data_y = None\<rparr> \<and>
     predict_fraud T m s root_id threshold =
       (m\<lparr>training := False\<rparr>,
        case forward T (params m) False False
               \<lparr>data_x = [], data_edge_index = ([], []), data_y = None\<rparr> of
          Inl e \<Rightarrow> Inl e
        | Inr [] \<Rightarrow> Inl IndexError
        | Inr (p # ps) \<Rightarrow>
            Inr \<lparr>transaction_id = root_id, fraud_probability = p,
                 is_fraudulent = fgt p threshold, explanation_context = EmptyContext\<rparr>)"
proof -
  note u = unknown_root_subgraph [OF assms]
  have "predict_fraud T m s root_id threshold =
       (m\<lparr>training := False\<rparr>,
        case forward T (params m) False False
               \<lparr>data_x = [], data_edge_index = ([], []), data_y = None\<rparr> of
          Inl e \<Rightarrow> Inl e
        | Inr [] \<Rightarrow> Inl IndexError
        | Inr (p # ps) \<Rightarrow>
            Inr \<lparr>transaction_id = root_id, fraud_probability = p,
                 is_fraudulent = fgt p threshold, explanation_context = EmptyContext\<rparr>)"
    by (simp add: predict_fraud_def u(2) [of 2] u(3) predict_def Let_def
        split: sum.splits list.splits)
  with u(1) u(2) show ?thesis by simp
qed

text \<open>
  Claim C2, as stated, fails. No node of the example store has the id \<open>T404\<close>; the
  subgraph is empty, and with a forward pass that rejects an input without rows
  \<open>predict_fraud\<close> raises instead of returning a fallback result.
\<close>

theorem predict_fraud_unknown_root_counterexample:
  "list_all (\<lambda>n. \<not> has_id n ''T404'') (s_nodes example_store) \<and>
   get_subgraph example_store ''T404'' 2 = ([], []) \<and>
   predict_fraud row_checking_torch \<lparr>params = [], training = False\<rparr> example_store ''T404''
     (Fin (1 / 2)) =
     (\<lparr>params = [], training = False\<rparr>, Inl (BackendError ''empty input''))"
  by (simp add: predict_fraud_def retrieve_context_def get_subgraph_def
      run_subgraph_query_def match_start_def example_store_def has_id_def
      collect_subgraph_def create_graph_data_def predict_def row_checking_torch_def)

theorem unknown_root_empty_context_no_fallback_witness:
  "\<not> list_ex (\<lambda>n. has_id n ''T404'') (s_nodes example_store) \<and>
   get_subgraph example_store ''T404'' 2 = ([], []) \<and>
   predict_fraud (const_torch (Inr [Fin (3 / 4)])) \<lparr>params = [], training = True\<rparr>
     example_store ''T404'' (Fin (1 / 2)) =
     (\<lparr>params = [], training = False\<rparr>,
      Inr \<lparr>transaction_id = ''T404'', fraud_probability = Fin (3 / 4),
           is_fraudulent = True, explanation_context = EmptyContext\<rparr>)"
proof -
  have u: "\<not> list_ex (\<lambda>n. has_id n ''T404'') (s_nodes example_store)"
    by (simp add: example_store_def has_id_def)
  from unknown_root_empty_context_no_fallback
         [OF u, of 2 "const_torch (Inr [Fin (3 / 4)])"
             "\<lparr>params = [], training = True\<rparr>" "Fin (1 / 2)"] u
  show ?thesis by (simp add: const_torch_def)
qed

end
